theory Spec2Isabelle
  imports Main "HOL-Library.Word"
begin

unbundle bit_operations_syntax

section \<open>The ADIN1300 PHY fixup (drivers/net/ethernet/freescale/adin_fixup.c)\<close>

text \<open>
  The fixup runs on top of three host services that are not part of the file: the MDIO
  register accessors \<^verbatim>\<open>phy_read\<close>/\<^verbatim>\<open>phy_write\<close>, the device-tree property readers, and
  the interface-mode enumeration \<^verbatim>\<open>phy_interface_t\<close> with its name table \<^verbatim>\<open>phy_modes\<close>.
  They are parameters of the model: every theorem holds for whatever the host does.
  C \<^verbatim>\<open>int\<close> values are HOL integers (the code only compares them with 0 and applies
  bit operations to values between 0 and 65535); \<^verbatim>\<open>u16\<close> is \<open>16 word\<close>, \<^verbatim>\<open>u32\<close> is
  \<open>32 word\<close>, and every conversion between them is written out.
\<close>

subsection \<open>Constants of the file\<close>

definition ADIN1300_MII_EXT_REG_PTR :: "32 word" where
  "ADIN1300_MII_EXT_REG_PTR = 0x0010"

definition ADIN1300_MII_EXT_REG_DATA :: "32 word" where
  "ADIN1300_MII_EXT_REG_DATA = 0x0011"

definition ADIN1300_GE_CLK_CFG :: "32 word" where
  "ADIN1300_GE_CLK_CFG = 0xff1f"

definition ADIN1300_GE_CLK_RCVR_125_EN :: int where
  "ADIN1300_GE_CLK_RCVR_125_EN = push_bit 5 1"

definition ADIN1300_GE_RGMII_CFG_REG :: "32 word" where
  "ADIN1300_GE_RGMII_CFG_REG = 0xff23"

definition ADIN1300_GE_RGMII_RXID_EN :: int where
  "ADIN1300_GE_RGMII_RXID_EN = push_bit 2 1"

definition ADIN1300_GE_RGMII_TXID_EN :: int where
  "ADIN1300_GE_RGMII_TXID_EN = push_bit 1 1"

definition ADIN1300_GE_RGMII_EN :: int where
  "ADIN1300_GE_RGMII_EN = push_bit 0 1"

definition ENODEV :: int where
  "ENODEV = 19"

subsection \<open>The host: MDIO bus, mode enumeration, device tree\<close>

text \<open>
  One access made through \<^verbatim>\<open>phy_read\<close> or \<^verbatim>\<open>phy_write\<close>: the register number, the
  value written, and the \<^verbatim>\<open>int\<close> the host returned (a negative errno when it failed).
\<close>

datatype mdio_access =
    MDIO_Read "32 word" int
  | MDIO_Write "32 word" "16 word" int

text \<open>
  The host's side of \<^verbatim>\<open>linux/phy.h\<close>. \<open>mdio_read\<close> and \<open>mdio_write\<close> are what the bus
  does on a read and a write (result and new bus state, for an arbitrary bus state
  \<open>'b\<close>); the five enumerators and \<open>phy_modes\<close> are those of \<^verbatim>\<open>phy_interface_t\<close>.
\<close>

record 'b phy_host =
  mdio_read :: "'b \<Rightarrow> 32 word \<Rightarrow> int \<times> 'b"
  mdio_write :: "'b \<Rightarrow> 32 word \<Rightarrow> 16 word \<Rightarrow> int \<times> 'b"
  PHY_INTERFACE_MODE_RGMII :: int
  PHY_INTERFACE_MODE_RGMII_ID :: int
  PHY_INTERFACE_MODE_RGMII_RXID :: int
  PHY_INTERFACE_MODE_RGMII_TXID :: int
  PHY_INTERFACE_MODE_MAX :: int
  phy_modes :: "int \<Rightarrow> string"

text \<open>
  A device-tree node, as far as the property readers see it: for each property name,
  what \<^verbatim>\<open>of_property_read_string\<close> returns (its \<^verbatim>\<open>int\<close> result and the string it
  stores through the out pointer) and what \<^verbatim>\<open>of_property_read_bool\<close> returns.
\<close>

record device_node =
  string_props :: "string \<Rightarrow> int \<times> string"
  bool_props :: "string \<Rightarrow> bool"

definition of_property_read_string :: "device_node \<Rightarrow> string \<Rightarrow> int \<times> string" where
  "of_property_read_string np propname = string_props np propname"

definition of_property_read_bool :: "device_node \<Rightarrow> string \<Rightarrow> bool" where
  "of_property_read_bool np propname = bool_props np propname"

text \<open>
  \<^verbatim>\<open>struct phy_device\<close>: the \<^verbatim>\<open>interface\<close> field, the node behind
  \<^verbatim>\<open>mdio.dev.of_node\<close> and the bus the device sits on. \<open>mdio_trace\<close> lists the bus
  accesses made so far and \<open>klog\<close> the lines given to \<^verbatim>\<open>printk\<close>, oldest first.
\<close>

record 'b phy_device =
  interface :: int
  of_node :: device_node
  bus :: 'b
  mdio_trace :: "mdio_access list"
  klog :: "string list"

definition printk :: "'b phy_device \<Rightarrow> string \<Rightarrow> 'b phy_device" where
  "printk phydev msg = phydev\<lparr>klog := klog phydev @ [msg]\<rparr>"

definition phy_read :: "'b phy_host \<Rightarrow> 'b phy_device \<Rightarrow> 32 word \<Rightarrow> int \<times> 'b phy_device" where
  "phy_read h phydev regnum =
     (let (r, b) = mdio_read h (bus phydev) regnum
      in (r, phydev\<lparr>bus := b, mdio_trace := mdio_trace phydev @ [MDIO_Read regnum r]\<rparr>))"

definition phy_write ::
  "'b phy_host \<Rightarrow> 'b phy_device \<Rightarrow> 32 word \<Rightarrow> 16 word \<Rightarrow> int \<times> 'b phy_device" where
  "phy_write h phydev regnum val =
     (let (r, b) = mdio_write h (bus phydev) regnum val
      in (r, phydev\<lparr>bus := b, mdio_trace := mdio_trace phydev @ [MDIO_Write regnum val r]\<rparr>))"

text \<open>
  Modelled from the spec: \<^verbatim>\<open>tolower\<close> and \<^verbatim>\<open>strcasecmp\<close> of the kernel library, which
  the file calls and does not define. The override is "matched case-insensitively":
  letters A to Z are folded to lower case and the strings compared byte by byte, up to
  the first difference or the terminating NUL; the result is the difference of the two
  bytes there, 0 when the strings match.
\<close>

definition tolower :: "char \<Rightarrow> char" where
  "tolower c =
     (if (65::int) \<le> of_char c \<and> of_char c \<le> (90::int)
      then char_of (of_char c + (32::int)) else c)"

fun strcasecmp :: "string \<Rightarrow> string \<Rightarrow> int" where
  "strcasecmp [] [] = 0"
| "strcasecmp [] (y # ys) = 0 - of_char (tolower y)"
| "strcasecmp (x # xs) [] = of_char (tolower x) - 0"
| "strcasecmp (x # xs) (y # ys) =
     (if tolower x = tolower y \<and> of_char (tolower x) \<noteq> (0::int)
      then strcasecmp xs ys
      else of_char (tolower x) - of_char (tolower y))"

subsection \<open>The functions of the file\<close>

definition adin_phy_interface_is_rgmii :: "'b phy_host \<Rightarrow> 'b phy_device \<Rightarrow> bool" where
  "adin_phy_interface_is_rgmii h phydev \<longleftrightarrow>
     interface phydev \<ge> PHY_INTERFACE_MODE_RGMII h \<and>
     interface phydev \<le> PHY_INTERFACE_MODE_RGMII_TXID h"

text \<open>
  The result of \<^verbatim>\<open>phy_write\<close> is dropped; that of \<^verbatim>\<open>phy_read\<close>, an \<^verbatim>\<open>int\<close>, is stored
  in the \<^verbatim>\<open>u16 val\<close> and so reduced modulo \<open>2 ^ 16\<close>.
\<close>

definition adin_ext_read ::
  "'b phy_host \<Rightarrow> 'b phy_device \<Rightarrow> 32 word \<Rightarrow> 16 word \<times> 'b phy_device" where
  "adin_ext_read h phydev regnum =
     (let (_, phydev) = phy_write h phydev ADIN1300_MII_EXT_REG_PTR (ucast regnum);
          (r, phydev) = phy_read h phydev ADIN1300_MII_EXT_REG_DATA;
          val = (word_of_int r :: 16 word)
      in (val, phydev))"

definition adin_ext_write ::
  "'b phy_host \<Rightarrow> 'b phy_device \<Rightarrow> 32 word \<Rightarrow> 16 word \<Rightarrow> int \<times> 'b phy_device" where
  "adin_ext_write h phydev regnum val =
     (let (_, phydev) = phy_write h phydev ADIN1300_MII_EXT_REG_PTR (ucast regnum)
      in phy_write h phydev ADIN1300_MII_EXT_REG_DATA val)"

text \<open>
  The loop \<^verbatim>\<open>for (i = 0; i < PHY_INTERFACE_MODE_MAX; i++)\<close> of
  \<^verbatim>\<open>adin_get_phy_mode_override\<close>, from index \<open>i\<close> on: the first index whose name
  compares equal, or \<open>None\<close> when the loop runs out.
\<close>

function phy_mode_scan :: "'b phy_host \<Rightarrow> string \<Rightarrow> int \<Rightarrow> int option" where
  "phy_mode_scan h phy_mode_override i =
     (if i < PHY_INTERFACE_MODE_MAX h
      then (if strcasecmp phy_mode_override (phy_modes h i) = 0 then Some i
            else phy_mode_scan h phy_mode_override (i + 1))
      else None)"
  by pat_completeness auto
termination
  by (relation "measure (\<lambda>(h, s, i). nat (PHY_INTERFACE_MODE_MAX h - i))") auto

declare phy_mode_scan.simps [simp del]

definition prop_phy_mode_override :: string where
  "prop_phy_mode_override = ''adi,phy-mode-override''"

definition override_not_valid_msg :: "string \<Rightarrow> string" where
  "override_not_valid_msg phy_mode_override =
     ''adin_get_phy_mode_override: Error '' @ prop_phy_mode_override @ '' = '' @
     [CHR 0x27] @ phy_mode_override @ [CHR 0x27] @ '' is not valid'' @ [CHR 0x0A]"

definition adin_get_phy_mode_override ::
  "'b phy_host \<Rightarrow> 'b phy_device \<Rightarrow> int \<times> 'b phy_device" where
  "adin_get_phy_mode_override h phydev =
     (let (err, phy_mode_override) =
            of_property_read_string (of_node phydev) prop_phy_mode_override
      in if err < 0 then (err, phydev)
         else (case phy_mode_scan h phy_mode_override 0 of
                 Some i \<Rightarrow> (i, phydev)
               | None \<Rightarrow>
                   (- ENODEV, printk phydev (override_not_valid_msg phy_mode_override))))"

definition adin_config_rgmii_mode ::
  "'b phy_host \<Rightarrow> 'b phy_device \<Rightarrow> int \<times> 'b phy_device" where
  "adin_config_rgmii_mode h phydev =
     (let (phy_mode_override, phydev) = adin_get_phy_mode_override h phydev;
          phydev = (if phy_mode_override \<ge> 0
                    then phydev\<lparr>interface := phy_mode_override\<rparr> else phydev);
          (val, phydev) = adin_ext_read h phydev ADIN1300_GE_RGMII_CFG_REG;
          reg = uint val
      in if reg < 0 then (reg, phydev)
         else if \<not> adin_phy_interface_is_rgmii h phydev then
           (let reg = reg AND NOT ADIN1300_GE_RGMII_EN
            in adin_ext_write h phydev ADIN1300_GE_RGMII_CFG_REG (word_of_int reg))
         else
           (let reg = reg OR ADIN1300_GE_RGMII_EN;
                reg = (if interface phydev = PHY_INTERFACE_MODE_RGMII_ID h \<or>
                          interface phydev = PHY_INTERFACE_MODE_RGMII_RXID h
                       then reg OR ADIN1300_GE_RGMII_RXID_EN
                       else reg AND NOT ADIN1300_GE_RGMII_RXID_EN);
                reg = (if interface phydev = PHY_INTERFACE_MODE_RGMII_ID h \<or>
                          interface phydev = PHY_INTERFACE_MODE_RGMII_TXID h
                       then reg OR ADIN1300_GE_RGMII_TXID_EN
                       else reg AND NOT ADIN1300_GE_RGMII_TXID_EN)
            in adin_ext_write h phydev ADIN1300_GE_RGMII_CFG_REG (word_of_int reg)))"

definition clk_enable_msg :: string where
  "clk_enable_msg = ''adin_set_clock_config: Enabling 125 MHz clock out'' @ [CHR 0x0A]"

definition adin_set_clock_config ::
  "'b phy_host \<Rightarrow> 'b phy_device \<Rightarrow> int \<times> 'b phy_device" where
  "adin_set_clock_config h phydev =
     (if of_property_read_bool (of_node phydev) ''adi,clk_rcvr_125_en'' then
        (let phydev = printk phydev clk_enable_msg;
             (val, phydev) = adin_ext_read h phydev ADIN1300_GE_CLK_CFG;
             reg = uint val;
             reg = reg OR ADIN1300_GE_CLK_RCVR_125_EN
         in adin_ext_write h phydev ADIN1300_GE_CLK_CFG (word_of_int reg))
      else (0, phydev))"

definition using_mode_msg :: "string \<Rightarrow> string" where
  "using_mode_msg mode =
     ''adin1300_phy_fixup: PHY is using mode '' @ [CHR 0x27] @ mode @ [CHR 0x27] @
     [CHR 0x0A]"

definition adin1300_phy_fixup :: "'b phy_host \<Rightarrow> 'b phy_device \<Rightarrow> int \<times> 'b phy_device" where
  "adin1300_phy_fixup h phydev =
     (let (rc, phydev) = adin_config_rgmii_mode h phydev
      in if rc < 0 then (rc, phydev)
         else (let (rc, phydev) = adin_set_clock_config h phydev
               in if rc < 0 then (rc, phydev)
                  else (0, printk phydev (using_mode_msg (phy_modes h (interface phydev))))))"

subsection \<open>The mode enumeration and the specified register value\<close>

text \<open>
  The declaration of \<^verbatim>\<open>phy_interface_t\<close> lists the four RGMII enumerators one after
  the other, in this order; \<^verbatim>\<open>adin_phy_interface_is_rgmii\<close> relies on it for its
  range test.
\<close>

definition phy_interface_enum_ok :: "'b phy_host \<Rightarrow> bool" where
  "phy_interface_enum_ok h \<longleftrightarrow>
     PHY_INTERFACE_MODE_RGMII_ID h = PHY_INTERFACE_MODE_RGMII h + 1 \<and>
     PHY_INTERFACE_MODE_RGMII_RXID h = PHY_INTERFACE_MODE_RGMII h + 2 \<and>
     PHY_INTERFACE_MODE_RGMII_TXID h = PHY_INTERFACE_MODE_RGMII h + 3"

definition rgmii_modes :: "'b phy_host \<Rightarrow> int set" where
  "rgmii_modes h =
     {PHY_INTERFACE_MODE_RGMII h, PHY_INTERFACE_MODE_RGMII_ID h,
      PHY_INTERFACE_MODE_RGMII_RXID h, PHY_INTERFACE_MODE_RGMII_TXID h}"

text \<open>
  Step 2 of the specification, in its words: what is written back to the RGMII-config
  register for a resolved mode and a value read. Bit 0 is the RGMII enable, bit 1 the
  TX delay enable, bit 2 the RX delay enable.
\<close>

definition spec_rgmii_cfg :: "'b phy_host \<Rightarrow> int \<Rightarrow> 16 word \<Rightarrow> 16 word" where
  "spec_rgmii_cfg h mode val =
     (if mode \<notin> rgmii_modes h then unset_bit 0 val
      else
        (let v = set_bit 0 val;
             v = (if mode = PHY_INTERFACE_MODE_RGMII_ID h \<or>
                     mode = PHY_INTERFACE_MODE_RGMII_RXID h
                  then set_bit 2 v else unset_bit 2 v);
             v = (if mode = PHY_INTERFACE_MODE_RGMII_ID h \<or>
                     mode = PHY_INTERFACE_MODE_RGMII_TXID h
                  then set_bit 1 v else unset_bit 1 v)
         in v))"

text \<open>
  The value \<^verbatim>\<open>adin_config_rgmii_mode\<close> hands to \<^verbatim>\<open>adin_ext_write\<close>, as a function
  of the mode it tests and of the \<^verbatim>\<open>u16\<close> it read: the body of the function from
  line 110 on, on 16-bit words.
\<close>

definition rgmii_cfg_written :: "'b phy_host \<Rightarrow> int \<Rightarrow> 16 word \<Rightarrow> 16 word" where
  "rgmii_cfg_written h mode val =
     (if \<not> (PHY_INTERFACE_MODE_RGMII h \<le> mode \<and> mode \<le> PHY_INTERFACE_MODE_RGMII_TXID h)
      then val AND NOT 1
      else
        (let v = val OR 1;
             v = (if mode = PHY_INTERFACE_MODE_RGMII_ID h \<or>
                     mode = PHY_INTERFACE_MODE_RGMII_RXID h
                  then v OR 4 else v AND NOT 4);
             v = (if mode = PHY_INTERFACE_MODE_RGMII_ID h \<or>
                     mode = PHY_INTERFACE_MODE_RGMII_TXID h
                  then v OR 2 else v AND NOT 2)
         in v))"

subsection \<open>A host to run the model on\<close>

text \<open>
  A mode table laid out like that of \<^verbatim>\<open>linux/phy.h\<close> (the RGMII variants at 8 to 11,
  24 modes) and a bus of two numbers: every read answers the first, every write the
  second. A device on it has a mode, the outcome of reading the override property, the
  clock flag, and such a bus.
\<close>

definition sample_mode_names :: "string list" where
  "sample_mode_names =
     ['''', ''internal'', ''mii'', ''gmii'', ''sgmii'', ''tbi'', ''rev-mii'', ''rmii'',
      ''rgmii'', ''rgmii-id'', ''rgmii-rxid'', ''rgmii-txid'', ''rtbi'', ''smii'',
      ''xgmii'', ''moca'', ''qsgmii'', ''trgmii'', ''1000base-x'', ''2500base-x'',
      ''rxaui'', ''xaui'', ''10gbase-kr'', ''usxgmii'']"

definition sample_host :: "(int \<times> int) phy_host" where
  "sample_host =
     \<lparr>mdio_read = (\<lambda>b regnum. (fst b, b)),
      mdio_write = (\<lambda>b regnum val. (snd b, b)),
      PHY_INTERFACE_MODE_RGMII = 8,
      PHY_INTERFACE_MODE_RGMII_ID = 9,
      PHY_INTERFACE_MODE_RGMII_RXID = 10,
      PHY_INTERFACE_MODE_RGMII_TXID = 11,
      PHY_INTERFACE_MODE_MAX = 24,
      phy_modes = (\<lambda>i. if 0 \<le> i \<and> i < 24 then sample_mode_names ! nat i
                        else ''unknown'')\<rparr>"

definition sample_phydev ::
  "int \<Rightarrow> int \<times> string \<Rightarrow> bool \<Rightarrow> int \<times> int \<Rightarrow> (int \<times> int) phy_device" where
  "sample_phydev mode override clk b =
     \<lparr>interface = mode,
      of_node =
        \<lparr>string_props = (\<lambda>p. if p = ''adi,phy-mode-override'' then override
                               else (- 22, [])),
         bool_props = (\<lambda>p. p = ''adi,clk_rcvr_125_en'' \<and> clk)\<rparr>,
      bus = b,
      mdio_trace = [],
      klog = []\<rparr>"

section \<open>Properties\<close>

subsection \<open>Register accesses and the override lookup\<close>

lemma adin_ext_read_shape:
  "\<exists>r1 r2 b. adin_ext_read h d regnum =
     (word_of_int r2,
      d\<lparr>bus := b, mdio_trace := mdio_trace d @
         [MDIO_Write ADIN1300_MII_EXT_REG_PTR (ucast regnum) r1,
          MDIO_Read ADIN1300_MII_EXT_REG_DATA r2]\<rparr>)"
  by (auto simp add: adin_ext_read_def phy_read_def phy_write_def Let_def split: prod.splits)

lemma adin_ext_write_shape:
  "\<exists>r1 rc b. adin_ext_write h d regnum v =
     (rc,
      d\<lparr>bus := b, mdio_trace := mdio_trace d @
         [MDIO_Write ADIN1300_MII_EXT_REG_PTR (ucast regnum) r1,
          MDIO_Write ADIN1300_MII_EXT_REG_DATA v rc]\<rparr>)"
  by (auto simp add: adin_ext_write_def phy_write_def Let_def split: prod.splits)

lemma override_frame:
  assumes "adin_get_phy_mode_override h d = (m, d0)"
  shows "interface d0 = interface d" and "of_node d0 = of_node d" and "bus d0 = bus d"
    and "mdio_trace d0 = mdio_trace d"
  using assms
  by (auto simp add: adin_get_phy_mode_override_def printk_def Let_def
      split: prod.splits if_splits option.splits)

lemma reg_conv:
  "word_of_int (uint (val :: 16 word) AND NOT ADIN1300_GE_RGMII_EN) = val AND NOT 1"
  "word_of_int (uint (val :: 16 word) OR ADIN1300_GE_RGMII_EN) = val OR 1"
  by (simp_all add: ADIN1300_GE_RGMII_EN_def of_int_and_eq of_int_or_eq of_int_not_eq)

lemma written_conv:
  fixes val :: "16 word"
  shows "(word_of_int
       (let reg = uint val OR ADIN1300_GE_RGMII_EN;
            reg = (if c1 then reg OR ADIN1300_GE_RGMII_RXID_EN
                   else reg AND NOT ADIN1300_GE_RGMII_RXID_EN);
            reg = (if c2 then reg OR ADIN1300_GE_RGMII_TXID_EN
                   else reg AND NOT ADIN1300_GE_RGMII_TXID_EN)
        in reg) :: 16 word) =
     (let v = val OR 1;
          v = (if c1 then v OR 4 else v AND NOT 4);
          v = (if c2 then v OR 2 else v AND NOT 2)
      in v)"
  by (simp add: ADIN1300_GE_RGMII_EN_def ADIN1300_GE_RGMII_RXID_EN_def
      ADIN1300_GE_RGMII_TXID_EN_def Let_def of_int_and_eq of_int_or_eq of_int_not_eq)

lemma adin_config_rgmii_mode_run:
  assumes ov: "adin_get_phy_mode_override h d = (m, d0)"
  shows "\<exists>r1 r2 r3 rc b.
     adin_config_rgmii_mode h d =
       (rc, d0\<lparr>interface := (if 0 \<le> m then m else interface d), bus := b,
               mdio_trace := mdio_trace d @
                 [MDIO_Write ADIN1300_MII_EXT_REG_PTR (ucast ADIN1300_GE_RGMII_CFG_REG) r1,
                  MDIO_Read ADIN1300_MII_EXT_REG_DATA r2,
                  MDIO_Write ADIN1300_MII_EXT_REG_PTR (ucast ADIN1300_GE_RGMII_CFG_REG) r3,
                  MDIO_Write ADIN1300_MII_EXT_REG_DATA
                    (rgmii_cfg_written h (if 0 \<le> m then m else interface d) (word_of_int r2))
                    rc]\<rparr>)"
proof -
  define mode where "mode = (if 0 \<le> m then m else interface d)"
  define d1 where "d1 = (if 0 \<le> m then d0\<lparr>interface := m\<rparr> else d0)"
  have d1: "interface d1 = mode" "mdio_trace d1 = mdio_trace d"
    "d1 = d0\<lparr>interface := mode\<rparr>"
    using override_frame [OF ov] by (auto simp add: d1_def mode_def)
  obtain r1 r2 b2 where rd: "adin_ext_read h d1 ADIN1300_GE_RGMII_CFG_REG =
     (word_of_int r2,
      d1\<lparr>bus := b2, mdio_trace := mdio_trace d1 @
         [MDIO_Write ADIN1300_MII_EXT_REG_PTR (ucast ADIN1300_GE_RGMII_CFG_REG) r1,
          MDIO_Read ADIN1300_MII_EXT_REG_DATA r2]\<rparr>)"
    using adin_ext_read_shape [of h d1 ADIN1300_GE_RGMII_CFG_REG] by blast
  define d2 where "d2 = d1\<lparr>bus := b2, mdio_trace := mdio_trace d1 @
         [MDIO_Write ADIN1300_MII_EXT_REG_PTR (ucast ADIN1300_GE_RGMII_CFG_REG) r1,
          MDIO_Read ADIN1300_MII_EXT_REG_DATA r2]\<rparr>"
  define val :: "16 word" where "val = word_of_int r2"
  define v where "v = rgmii_cfg_written h mode val"
  have cfg: "adin_config_rgmii_mode h d =
      adin_ext_write h d2 ADIN1300_GE_RGMII_CFG_REG v"
    unfolding adin_config_rgmii_mode_def ov
    apply (simp only: prod.case Let_def d1_def [symmetric] rd d2_def [symmetric] val_def [symmetric])
    apply (simp add: adin_phy_interface_is_rgmii_def d2_def d1 v_def rgmii_cfg_written_def reg_conv
        written_conv [unfolded Let_def] Let_def)
    done
  obtain r3 rc b3 where wr: "adin_ext_write h d2 ADIN1300_GE_RGMII_CFG_REG v =
     (rc, d2\<lparr>bus := b3, mdio_trace := mdio_trace d2 @
         [MDIO_Write ADIN1300_MII_EXT_REG_PTR (ucast ADIN1300_GE_RGMII_CFG_REG) r3,
          MDIO_Write ADIN1300_MII_EXT_REG_DATA v rc]\<rparr>)"
    using adin_ext_write_shape [of h d2 ADIN1300_GE_RGMII_CFG_REG v] by blast
  have "adin_config_rgmii_mode h d =
       (rc, d0\<lparr>interface := mode, bus := b3,
               mdio_trace := mdio_trace d @
                 [MDIO_Write ADIN1300_MII_EXT_REG_PTR (ucast ADIN1300_GE_RGMII_CFG_REG) r1,
                  MDIO_Read ADIN1300_MII_EXT_REG_DATA r2,
                  MDIO_Write ADIN1300_MII_EXT_REG_PTR (ucast ADIN1300_GE_RGMII_CFG_REG) r3,
                  MDIO_Write ADIN1300_MII_EXT_REG_DATA v rc]\<rparr>)"
    unfolding cfg wr by (simp add: d2_def d1 override_frame [OF ov])
  then show ?thesis
    unfolding v_def val_def mode_def by blast
qed

lemma adin_config_rgmii_mode_result:
  assumes ov: "adin_get_phy_mode_override h d = (m, d0)"
    and run: "adin_config_rgmii_mode h d = (rc, d')"
  shows "interface d' = (if 0 \<le> m then m else interface d)"
    and "klog d' = klog d0"
    and "of_node d' = of_node d"
    and "\<exists>r1 r2 r3. mdio_trace d' = mdio_trace d @
       [MDIO_Write ADIN1300_MII_EXT_REG_PTR (ucast ADIN1300_GE_RGMII_CFG_REG) r1,
        MDIO_Read ADIN1300_MII_EXT_REG_DATA r2,
        MDIO_Write ADIN1300_MII_EXT_REG_PTR (ucast ADIN1300_GE_RGMII_CFG_REG) r3,
        MDIO_Write ADIN1300_MII_EXT_REG_DATA
          (rgmii_cfg_written h (if 0 \<le> m then m else interface d) (word_of_int r2)) rc]"
proof -
  from adin_config_rgmii_mode_run [OF ov] obtain r1 r2 r3 rc0 b where
    eq: "adin_config_rgmii_mode h d =
       (rc0, d0\<lparr>interface := (if 0 \<le> m then m else interface d), bus := b,
               mdio_trace := mdio_trace d @
                 [MDIO_Write ADIN1300_MII_EXT_REG_PTR (ucast ADIN1300_GE_RGMII_CFG_REG) r1,
                  MDIO_Read ADIN1300_MII_EXT_REG_DATA r2,
                  MDIO_Write ADIN1300_MII_EXT_REG_PTR (ucast ADIN1300_GE_RGMII_CFG_REG) r3,
                  MDIO_Write ADIN1300_MII_EXT_REG_DATA
                    (rgmii_cfg_written h (if 0 \<le> m then m else interface d) (word_of_int r2))
                    rc0]\<rparr>)"
    by blast
  from eq run have rc: "rc0 = rc" and d': "d' = d0\<lparr>interface := (if 0 \<le> m then m else interface d), bus := b,
               mdio_trace := mdio_trace d @
                 [MDIO_Write ADIN1300_MII_EXT_REG_PTR (ucast ADIN1300_GE_RGMII_CFG_REG) r1,
                  MDIO_Read ADIN1300_MII_EXT_REG_DATA r2,
                  MDIO_Write ADIN1300_MII_EXT_REG_PTR (ucast ADIN1300_GE_RGMII_CFG_REG) r3,
                  MDIO_Write ADIN1300_MII_EXT_REG_DATA
                    (rgmii_cfg_written h (if 0 \<le> m then m else interface d) (word_of_int r2))
                    rc0]\<rparr>"
    by simp_all
  show "interface d' = (if 0 \<le> m then m else interface d)"
    by (simp add: d')
  show "klog d' = klog d0"
    by (simp add: d')
  show "of_node d' = of_node d"
    by (simp add: d' override_frame [OF ov])
  have "mdio_trace d' = mdio_trace d @
       [MDIO_Write ADIN1300_MII_EXT_REG_PTR (ucast ADIN1300_GE_RGMII_CFG_REG) r1,
        MDIO_Read ADIN1300_MII_EXT_REG_DATA r2,
        MDIO_Write ADIN1300_MII_EXT_REG_PTR (ucast ADIN1300_GE_RGMII_CFG_REG) r3,
        MDIO_Write ADIN1300_MII_EXT_REG_DATA
          (rgmii_cfg_written h (if 0 \<le> m then m else interface d) (word_of_int r2)) rc]"
    by (simp add: d' rc)
  then show "\<exists>r1 r2 r3. mdio_trace d' = mdio_trace d @
       [MDIO_Write ADIN1300_MII_EXT_REG_PTR (ucast ADIN1300_GE_RGMII_CFG_REG) r1,
        MDIO_Read ADIN1300_MII_EXT_REG_DATA r2,
        MDIO_Write ADIN1300_MII_EXT_REG_PTR (ucast ADIN1300_GE_RGMII_CFG_REG) r3,
        MDIO_Write ADIN1300_MII_EXT_REG_DATA
          (rgmii_cfg_written h (if 0 \<le> m then m else interface d) (word_of_int r2)) rc]"
    by blast
qed

subsection \<open>The value written to the RGMII-config register\<close>

lemma rgmii_modes_range:
  "phy_interface_enum_ok h \<Longrightarrow>
   mode \<in> rgmii_modes h \<longleftrightarrow>
     PHY_INTERFACE_MODE_RGMII h \<le> mode \<and> mode \<le> PHY_INTERFACE_MODE_RGMII_TXID h"
  by (auto simp add: phy_interface_enum_ok_def rgmii_modes_def)

lemma rgmii_cfg_written_spec:
  "phy_interface_enum_ok h \<Longrightarrow> rgmii_cfg_written h mode val = spec_rgmii_cfg h mode val"
  by (simp add: rgmii_cfg_written_def spec_rgmii_cfg_def rgmii_modes_range Let_def
      set_bit_eq_or unset_bit_eq_and_not)

lemma rgmii_cfg_written_non_rgmii:
  "phy_interface_enum_ok h \<Longrightarrow> mode \<notin> rgmii_modes h \<Longrightarrow>
   rgmii_cfg_written h mode val = val AND NOT 1"
  by (simp add: rgmii_cfg_written_def rgmii_modes_range)

lemma rgmii_cfg_written_bits:
  assumes "phy_interface_enum_ok h" and "mode \<in> rgmii_modes h"
  shows "bit (rgmii_cfg_written h mode val) 0"
    and "bit (rgmii_cfg_written h mode val) 2 \<longleftrightarrow>
           mode = PHY_INTERFACE_MODE_RGMII_ID h \<or> mode = PHY_INTERFACE_MODE_RGMII_RXID h"
    and "bit (rgmii_cfg_written h mode val) 1 \<longleftrightarrow>
           mode = PHY_INTERFACE_MODE_RGMII_ID h \<or> mode = PHY_INTERFACE_MODE_RGMII_TXID h"
  using assms
  by (simp_all add: rgmii_cfg_written_def rgmii_modes_range [symmetric] Let_def bit_simps)

subsection \<open>The override lookup\<close>

text \<open>
  On C strings (no NUL inside), \<open>strcasecmp\<close> returns 0 exactly when the two strings
  are equal once both are folded to lower case.
\<close>

lemma of_char_tolower_eq_0_iff: "of_char (tolower c) = (0::int) \<longleftrightarrow> c = CHR 0x00"
proof -
  have r: "(of_char c :: int) < 256"
    by (metis of_char_mod_256 pos_mod_bound zero_less_numeral)
  have "of_char (CHR 0x00) = (0::int)" by simp
  then have z: "of_char c = (0::int) \<longleftrightarrow> c = CHR 0x00"
    by (metis of_char_eq_iff)
  show ?thesis
    using r z by (auto simp add: tolower_def)
qed

lemma strcasecmp_eq_0_iff:
  "CHR 0x00 \<notin> set s \<Longrightarrow> CHR 0x00 \<notin> set t \<Longrightarrow>
   strcasecmp s t = 0 \<longleftrightarrow> map tolower s = map tolower t"
proof (induction s t rule: strcasecmp.induct)
  case 1
  show ?case by simp
next
  case (2 y ys)
  then show ?case by (auto simp add: of_char_tolower_eq_0_iff)
next
  case (3 x xs)
  then show ?case by (auto simp add: of_char_tolower_eq_0_iff)
next
  case (4 x xs y ys)
  then show ?case by (auto simp add: of_char_tolower_eq_0_iff)
qed

lemma phy_mode_scan_first:
  "i \<le> k \<Longrightarrow> k < PHY_INTERFACE_MODE_MAX h \<Longrightarrow> strcasecmp s (phy_modes h k) = 0 \<Longrightarrow>
   (\<forall>j. i \<le> j \<and> j < k \<longrightarrow> strcasecmp s (phy_modes h j) \<noteq> 0) \<Longrightarrow>
   phy_mode_scan h s i = Some k"
proof (induction h s i rule: phy_mode_scan.induct)
  case (1 h s i)
  show ?case
  proof (cases "i = k")
    case True
    with "1.prems" show ?thesis by (simp add: phy_mode_scan.simps [of h s k])
  next
    case False
    with "1.prems" have lt: "i < k" and nz: "strcasecmp s (phy_modes h i) \<noteq> 0"
      by auto
    from lt "1.prems" have "i < PHY_INTERFACE_MODE_MAX h" by simp
    moreover have "phy_mode_scan h s (i + 1) = Some k"
      using "1.IH" "1.prems" lt nz by auto
    ultimately show ?thesis using nz by (simp add: phy_mode_scan.simps [of h s i])
  qed
qed

lemma phy_mode_scan_None:
  "(\<forall>j. i \<le> j \<and> j < PHY_INTERFACE_MODE_MAX h \<longrightarrow> strcasecmp s (phy_modes h j) \<noteq> 0) \<Longrightarrow>
   phy_mode_scan h s i = None"
proof (induction h s i rule: phy_mode_scan.induct)
  case (1 h s i)
  show ?case
  proof (cases "i < PHY_INTERFACE_MODE_MAX h")
    case True
    with "1.prems" have nz: "strcasecmp s (phy_modes h i) \<noteq> 0" by simp
    have "phy_mode_scan h s (i + 1) = None"
      using "1.IH" "1.prems" True nz by auto
    with True nz show ?thesis by (simp add: phy_mode_scan.simps [of h s i])
  next
    case False
    then show ?thesis by (simp add: phy_mode_scan.simps [of h s i])
  qed
qed

lemma override_valid:
  assumes "of_property_read_string (of_node d) prop_phy_mode_override = (err, s)"
    and "0 \<le> err" and "0 \<le> k" and "k < PHY_INTERFACE_MODE_MAX h"
    and "strcasecmp s (phy_modes h k) = 0"
    and "\<forall>j. 0 \<le> j \<and> j < k \<longrightarrow> strcasecmp s (phy_modes h j) \<noteq> 0"
  shows "adin_get_phy_mode_override h d = (k, d)"
  using assms(1,2) phy_mode_scan_first [OF assms(3-6)]
  by (simp add: adin_get_phy_mode_override_def)

lemma override_invalid:
  assumes "of_property_read_string (of_node d) prop_phy_mode_override = (err, s)"
    and "0 \<le> err"
    and "\<forall>j. 0 \<le> j \<and> j < PHY_INTERFACE_MODE_MAX h \<longrightarrow> strcasecmp s (phy_modes h j) \<noteq> 0"
  shows "adin_get_phy_mode_override h d = (- ENODEV, printk d (override_not_valid_msg s))"
  using assms(1,2) phy_mode_scan_None [OF assms(3)]
  by (simp add: adin_get_phy_mode_override_def)

lemma override_any_prior_mode:
  "adin_get_phy_mode_override h d = (m, d0) \<Longrightarrow>
   adin_get_phy_mode_override h (d\<lparr>interface := i0\<rparr>) = (m, d0\<lparr>interface := i0\<rparr>)"
  by (auto simp add: adin_get_phy_mode_override_def printk_def Let_def
      split: prod.splits if_splits option.splits)

lemma config_any_prior_mode:
  assumes ov: "adin_get_phy_mode_override h d = (m, d0)" and "0 \<le> m"
  shows "adin_config_rgmii_mode h (d\<lparr>interface := i0\<rparr>) = adin_config_rgmii_mode h d"
  unfolding adin_config_rgmii_mode_def ov override_any_prior_mode [OF ov]
  using assms(2) by simp

subsection \<open>The clock-config step\<close>

lemma clk_reg_conv:
  "word_of_int (uint (val :: 16 word) OR ADIN1300_GE_CLK_RCVR_125_EN) = val OR 0x20"
  by (simp add: ADIN1300_GE_CLK_RCVR_125_EN_def of_int_or_eq)

lemma adin_set_clock_config_run:
  assumes "of_property_read_bool (of_node d) ''adi,clk_rcvr_125_en''"
  shows "\<exists>r1 r2 r3 rc b.
     adin_set_clock_config h d =
       (rc, d\<lparr>bus := b,
              mdio_trace := mdio_trace d @
                [MDIO_Write ADIN1300_MII_EXT_REG_PTR (ucast ADIN1300_GE_CLK_CFG) r1,
                 MDIO_Read ADIN1300_MII_EXT_REG_DATA r2,
                 MDIO_Write ADIN1300_MII_EXT_REG_PTR (ucast ADIN1300_GE_CLK_CFG) r3,
                 MDIO_Write ADIN1300_MII_EXT_REG_DATA (word_of_int r2 OR 0x20) rc],
              klog := klog d @ [clk_enable_msg]\<rparr>)"
proof -
  define d1 where "d1 = printk d clk_enable_msg"
  obtain r1 r2 b2 where rd: "adin_ext_read h d1 ADIN1300_GE_CLK_CFG =
     (word_of_int r2,
      d1\<lparr>bus := b2, mdio_trace := mdio_trace d1 @
         [MDIO_Write ADIN1300_MII_EXT_REG_PTR (ucast ADIN1300_GE_CLK_CFG) r1,
          MDIO_Read ADIN1300_MII_EXT_REG_DATA r2]\<rparr>)"
    using adin_ext_read_shape [of h d1 ADIN1300_GE_CLK_CFG] by blast
  define d2 where "d2 = d1\<lparr>bus := b2, mdio_trace := mdio_trace d1 @
         [MDIO_Write ADIN1300_MII_EXT_REG_PTR (ucast ADIN1300_GE_CLK_CFG) r1,
          MDIO_Read ADIN1300_MII_EXT_REG_DATA r2]\<rparr>"
  define v :: "16 word" where "v = word_of_int r2 OR 0x20"
  have cfg: "adin_set_clock_config h d = adin_ext_write h d2 ADIN1300_GE_CLK_CFG v"
    unfolding adin_set_clock_config_def
    by (simp add: assms Let_def d1_def [symmetric] rd d2_def [symmetric] clk_reg_conv v_def)
  obtain r3 rc b3 where wr: "adin_ext_write h d2 ADIN1300_GE_CLK_CFG v =
     (rc, d2\<lparr>bus := b3, mdio_trace := mdio_trace d2 @
         [MDIO_Write ADIN1300_MII_EXT_REG_PTR (ucast ADIN1300_GE_CLK_CFG) r3,
          MDIO_Write ADIN1300_MII_EXT_REG_DATA v rc]\<rparr>)"
    using adin_ext_write_shape [of h d2 ADIN1300_GE_CLK_CFG v] by blast
  have "adin_set_clock_config h d =
       (rc, d\<lparr>bus := b3,
              mdio_trace := mdio_trace d @
                [MDIO_Write ADIN1300_MII_EXT_REG_PTR (ucast ADIN1300_GE_CLK_CFG) r1,
                 MDIO_Read ADIN1300_MII_EXT_REG_DATA r2,
                 MDIO_Write ADIN1300_MII_EXT_REG_PTR (ucast ADIN1300_GE_CLK_CFG) r3,
                 MDIO_Write ADIN1300_MII_EXT_REG_DATA v rc],
              klog := klog d @ [clk_enable_msg]\<rparr>)"
    unfolding cfg wr by (simp add: d2_def d1_def printk_def)
  then show ?thesis
    unfolding v_def by blast
qed

subsection \<open>Unfolding the model on the sample host\<close>

lemmas sample_eval =
  sample_host_def sample_phydev_def sample_mode_names_def
  adin1300_phy_fixup_def adin_set_clock_config_def adin_config_rgmii_mode_def
  adin_get_phy_mode_override_def adin_ext_read_def adin_ext_write_def
  phy_read_def phy_write_def printk_def of_property_read_string_def of_property_read_bool_def
  adin_phy_interface_is_rgmii_def prop_phy_mode_override_def
  ADIN1300_GE_RGMII_EN_def ADIN1300_GE_RGMII_RXID_EN_def ADIN1300_GE_RGMII_TXID_EN_def
  ADIN1300_GE_CLK_RCVR_125_EN_def ADIN1300_GE_CLK_CFG_def ADIN1300_GE_RGMII_CFG_REG_def
  ADIN1300_MII_EXT_REG_PTR_def ADIN1300_MII_EXT_REG_DATA_def ENODEV_def
  phy_mode_scan.simps tolower_def char_of_eq_iff Let_def
  phy_interface_enum_ok_def rgmii_modes_def

lemma sample_host_enum_ok: "phy_interface_enum_ok sample_host"
  by (simp add: phy_interface_enum_ok_def sample_host_def)

section \<open>The RGMII-config register\<close>

text \<open>
  C1. Whenever the mode \<^verbatim>\<open>adin_config_rgmii_mode\<close> ends up with is one of the four
  RGMII variants, its last bus access writes to the RGMII-config register a value with
  the enable bit (bit 0) set and the delay bits (RX bit 2, TX bit 1) as in the table:
  RGMII 00, RGMII-ID 11, RGMII-RXID 10, RGMII-TXID 01. The value read (\<open>r2\<close>) and the
  outcomes of the bus accesses are whatever the host returns.
\<close>

theorem rgmii_variant_delay_bits:
  assumes "phy_interface_enum_ok h"
    and "adin_config_rgmii_mode h d = (rc, d')"
    and "interface d' \<in> rgmii_modes h"
  shows "\<exists>r1 r2 r3 v.
     mdio_trace d' = mdio_trace d @
       [MDIO_Write ADIN1300_MII_EXT_REG_PTR (ucast ADIN1300_GE_RGMII_CFG_REG) r1,
        MDIO_Read ADIN1300_MII_EXT_REG_DATA r2,
        MDIO_Write ADIN1300_MII_EXT_REG_PTR (ucast ADIN1300_GE_RGMII_CFG_REG) r3,
        MDIO_Write ADIN1300_MII_EXT_REG_DATA v rc] \<and>
     bit v 0 \<and>
     (interface d' = PHY_INTERFACE_MODE_RGMII h \<longrightarrow> \<not> bit v 2 \<and> \<not> bit v 1) \<and>
     (interface d' = PHY_INTERFACE_MODE_RGMII_ID h \<longrightarrow> bit v 2 \<and> bit v 1) \<and>
     (interface d' = PHY_INTERFACE_MODE_RGMII_RXID h \<longrightarrow> bit v 2 \<and> \<not> bit v 1) \<and>
     (interface d' = PHY_INTERFACE_MODE_RGMII_TXID h \<longrightarrow> \<not> bit v 2 \<and> bit v 1)"
proof -
  obtain m d0 where ov: "adin_get_phy_mode_override h d = (m, d0)"
    by (cases "adin_get_phy_mode_override h d")
  define mode where "mode = (if 0 \<le> m then m else interface d)"
  note res = adin_config_rgmii_mode_result [OF ov assms(2), folded mode_def]
  from res(4) obtain r1 r2 r3 where
    tr: "mdio_trace d' = mdio_trace d @
       [MDIO_Write ADIN1300_MII_EXT_REG_PTR (ucast ADIN1300_GE_RGMII_CFG_REG) r1,
        MDIO_Read ADIN1300_MII_EXT_REG_DATA r2,
        MDIO_Write ADIN1300_MII_EXT_REG_PTR (ucast ADIN1300_GE_RGMII_CFG_REG) r3,
        MDIO_Write ADIN1300_MII_EXT_REG_DATA (rgmii_cfg_written h mode (word_of_int r2)) rc]"
    by blast
  define v where "v = rgmii_cfg_written h mode (word_of_int r2)"
  from assms(3) res(1) have mem: "mode \<in> rgmii_modes h" by simp
  note bits = rgmii_cfg_written_bits [OF assms(1) mem, of "word_of_int r2", folded v_def]
  have distinct: "PHY_INTERFACE_MODE_RGMII h \<noteq> PHY_INTERFACE_MODE_RGMII_ID h"
    "PHY_INTERFACE_MODE_RGMII h \<noteq> PHY_INTERFACE_MODE_RGMII_RXID h"
    "PHY_INTERFACE_MODE_RGMII h \<noteq> PHY_INTERFACE_MODE_RGMII_TXID h"
    "PHY_INTERFACE_MODE_RGMII_RXID h \<noteq> PHY_INTERFACE_MODE_RGMII_ID h"
    "PHY_INTERFACE_MODE_RGMII_RXID h \<noteq> PHY_INTERFACE_MODE_RGMII_TXID h"
    "PHY_INTERFACE_MODE_RGMII_TXID h \<noteq> PHY_INTERFACE_MODE_RGMII_ID h"
    using assms(1) by (simp_all add: phy_interface_enum_ok_def)
  have table: "bit v 0"
    "interface d' = PHY_INTERFACE_MODE_RGMII h \<longrightarrow> \<not> bit v 2 \<and> \<not> bit v 1"
    "interface d' = PHY_INTERFACE_MODE_RGMII_ID h \<longrightarrow> bit v 2 \<and> bit v 1"
    "interface d' = PHY_INTERFACE_MODE_RGMII_RXID h \<longrightarrow> bit v 2 \<and> \<not> bit v 1"
    "interface d' = PHY_INTERFACE_MODE_RGMII_TXID h \<longrightarrow> \<not> bit v 2 \<and> bit v 1"
    using bits distinct by (simp_all add: res(1))
  from tr [folded v_def] table show ?thesis by blast
qed


theorem rgmii_variant_delay_bits_witness:
  "phy_interface_enum_ok sample_host \<and>
   interface (snd (adin_config_rgmii_mode sample_host
      (sample_phydev 8 (- 22, []) False (0x0e06, 0)))) = 8 \<and>
   mdio_trace (snd (adin_config_rgmii_mode sample_host
      (sample_phydev 8 (- 22, []) False (0x0e06, 0)))) =
     [MDIO_Write 0x10 0xff23 0, MDIO_Read 0x11 0x0e06,
      MDIO_Write 0x10 0xff23 0, MDIO_Write 0x11 0x0e01 0] \<and>
   interface (snd (adin_config_rgmii_mode sample_host
      (sample_phydev 2 (0, ''rgmii-id'') False (0x0e00, 0)))) = 9 \<and>
   mdio_trace (snd (adin_config_rgmii_mode sample_host
      (sample_phydev 2 (0, ''rgmii-id'') False (0x0e00, 0)))) =
     [MDIO_Write 0x10 0xff23 0, MDIO_Read 0x11 0x0e00,
      MDIO_Write 0x10 0xff23 0, MDIO_Write 0x11 0x0e07 0] \<and>
   interface (snd (adin_config_rgmii_mode sample_host
      (sample_phydev 10 (- 22, []) False (0x0e02, 0)))) = 10 \<and>
   mdio_trace (snd (adin_config_rgmii_mode sample_host
      (sample_phydev 10 (- 22, []) False (0x0e02, 0)))) =
     [MDIO_Write 0x10 0xff23 0, MDIO_Read 0x11 0x0e02,
      MDIO_Write 0x10 0xff23 0, MDIO_Write 0x11 0x0e05 0] \<and>
   interface (snd (adin_config_rgmii_mode sample_host
      (sample_phydev 4 (0, ''RGMII-TXID'') False (0x0e04, 0)))) = 11 \<and>
   mdio_trace (snd (adin_config_rgmii_mode sample_host
      (sample_phydev 4 (0, ''RGMII-TXID'') False (0x0e04, 0)))) =
     [MDIO_Write 0x10 0xff23 0, MDIO_Read 0x11 0x0e04,
      MDIO_Write 0x10 0xff23 0, MDIO_Write 0x11 0x0e03 0]"
proof -
  let ?run = "\<lambda>d. adin_config_rgmii_mode sample_host d"
  let ?d1 = "sample_phydev 8 (- 22, []) False (0x0e06, 0)"
  let ?d2 = "sample_phydev 2 (0, ''rgmii-id'') False (0x0e00, 0)"
  let ?d3 = "sample_phydev 10 (- 22, []) False (0x0e02, 0)"
  let ?d4 = "sample_phydev 4 (0, ''RGMII-TXID'') False (0x0e04, 0)"
  have m1: "interface (snd (?run ?d1)) \<in> rgmii_modes sample_host"
    and m2: "interface (snd (?run ?d2)) \<in> rgmii_modes sample_host"
    and m3: "interface (snd (?run ?d3)) \<in> rgmii_modes sample_host"
    and m4: "interface (snd (?run ?d4)) \<in> rgmii_modes sample_host"
    by (simp_all add: sample_eval)
  show ?thesis
    using rgmii_variant_delay_bits [OF sample_host_enum_ok prod.collapse [symmetric] m1]
      rgmii_variant_delay_bits [OF sample_host_enum_ok prod.collapse [symmetric] m2]
      rgmii_variant_delay_bits [OF sample_host_enum_ok prod.collapse [symmetric] m3]
      rgmii_variant_delay_bits [OF sample_host_enum_ok prod.collapse [symmetric] m4]
    by (simp add: sample_eval)
qed

text \<open>
  C5. Whenever the resolved mode is none of the four RGMII variants, the value written
  back to the RGMII-config register is the value read with bit 0 (the enable bit)
  cleared and every other bit, the two delay bits among them, as read.
\<close>

theorem non_rgmii_clears_enable_only:
  assumes "phy_interface_enum_ok h"
    and "adin_config_rgmii_mode h d = (rc, d')"
    and "interface d' \<notin> rgmii_modes h"
  shows "\<exists>r1 r2 r3 val v.
     mdio_trace d' = mdio_trace d @
       [MDIO_Write ADIN1300_MII_EXT_REG_PTR (ucast ADIN1300_GE_RGMII_CFG_REG) r1,
        MDIO_Read ADIN1300_MII_EXT_REG_DATA r2,
        MDIO_Write ADIN1300_MII_EXT_REG_PTR (ucast ADIN1300_GE_RGMII_CFG_REG) r3,
        MDIO_Write ADIN1300_MII_EXT_REG_DATA v rc] \<and>
     val = word_of_int r2 \<and>
     v = val AND NOT 1 \<and>
     \<not> bit v 0 \<and> bit v 1 = bit val 1 \<and> bit v 2 = bit val 2"
proof -
  obtain m d0 where ov: "adin_get_phy_mode_override h d = (m, d0)"
    by (cases "adin_get_phy_mode_override h d")
  define mode where "mode = (if 0 \<le> m then m else interface d)"
  note res = adin_config_rgmii_mode_result [OF ov assms(2), folded mode_def]
  from res(4) obtain r1 r2 r3 where
    tr: "mdio_trace d' = mdio_trace d @
       [MDIO_Write ADIN1300_MII_EXT_REG_PTR (ucast ADIN1300_GE_RGMII_CFG_REG) r1,
        MDIO_Read ADIN1300_MII_EXT_REG_DATA r2,
        MDIO_Write ADIN1300_MII_EXT_REG_PTR (ucast ADIN1300_GE_RGMII_CFG_REG) r3,
        MDIO_Write ADIN1300_MII_EXT_REG_DATA (rgmii_cfg_written h mode (word_of_int r2)) rc]"
    by blast
  from assms(3) res(1) have "mode \<notin> rgmii_modes h" by simp
  then have w: "rgmii_cfg_written h mode (word_of_int r2) = word_of_int r2 AND NOT 1"
    by (rule rgmii_cfg_written_non_rgmii [OF assms(1)])
  have "\<not> bit (word_of_int r2 AND NOT 1 :: 16 word) 0"
    "bit (word_of_int r2 AND NOT 1 :: 16 word) 1 = bit (word_of_int r2 :: 16 word) 1"
    "bit (word_of_int r2 AND NOT 1 :: 16 word) 2 = bit (word_of_int r2 :: 16 word) 2"
    by (simp_all add: bit_simps)
  with tr [unfolded w] show ?thesis by blast
qed

theorem non_rgmii_clears_enable_only_witness:
  "phy_interface_enum_ok sample_host \<and>
   interface (snd (adin_config_rgmii_mode sample_host
      (sample_phydev 2 (- 22, []) False (0x0e07, 0)))) \<notin> rgmii_modes sample_host \<and>
   mdio_trace (snd (adin_config_rgmii_mode sample_host
      (sample_phydev 2 (- 22, []) False (0x0e07, 0)))) =
     [MDIO_Write 0x10 0xff23 0, MDIO_Read 0x11 0x0e07,
      MDIO_Write 0x10 0xff23 0, MDIO_Write 0x11 0x0e06 0]"
proof -
  let ?d = "sample_phydev 2 (- 22, []) False (0x0e07, 0)"
  have m: "interface (snd (adin_config_rgmii_mode sample_host ?d)) \<notin> rgmii_modes sample_host"
    by (simp add: sample_eval)
  show ?thesis
    using non_rgmii_clears_enable_only [OF sample_host_enum_ok prod.collapse [symmetric] m]
    by (simp add: sample_eval)
qed

section \<open>The mode override\<close>

text \<open>
  C3. When the override property is read successfully and its string compares equal,
  ignoring case (\<open>strcasecmp_eq_0_iff\<close>), to a name of the mode table, \<open>k\<close> being
  the first index whose name does, which is where the lookup stops, the lookup returns
  \<open>k\<close> and \<^verbatim>\<open>adin_config_rgmii_mode\<close> leaves \<open>k\<close> in the interface field, whatever
  mode \<open>prior\<close> the field held before.
\<close>

theorem valid_override_sets_mode:
  assumes "of_property_read_string (of_node d) prop_phy_mode_override = (err, s)"
    and "0 \<le> err"
    and "0 \<le> k" and "k < PHY_INTERFACE_MODE_MAX h"
    and "strcasecmp s (phy_modes h k) = 0"
    and "\<forall>j. 0 \<le> j \<and> j < k \<longrightarrow> strcasecmp s (phy_modes h j) \<noteq> 0"
  shows "fst (adin_get_phy_mode_override h (d\<lparr>interface := prior\<rparr>)) = k \<and>
         interface (snd (adin_config_rgmii_mode h (d\<lparr>interface := prior\<rparr>))) = k"
proof -
  let ?d = "d\<lparr>interface := prior\<rparr>"
  have "of_property_read_string (of_node ?d) prop_phy_mode_override = (err, s)"
    using assms(1) by simp
  then have ov: "adin_get_phy_mode_override h ?d = (k, ?d)"
    using assms(2-6) by (rule override_valid)
  have "interface (snd (adin_config_rgmii_mode h ?d)) = (if 0 \<le> k then k else interface ?d)"
    by (rule adin_config_rgmii_mode_result(1) [OF ov prod.collapse [symmetric]])
  with ov assms(3) show ?thesis by simp
qed

theorem valid_override_sets_mode_witness:
  "of_property_read_string (of_node (sample_phydev 2 (0, ''RGMII-ID'') False (0x0e00, 0)))
     prop_phy_mode_override = (0, ''RGMII-ID'') \<and>
   strcasecmp ''RGMII-ID'' (phy_modes sample_host 9) = 0 \<and>
   phy_mode_scan sample_host ''RGMII-ID'' 0 = Some 9 \<and>
   fst (adin_get_phy_mode_override sample_host
     ((sample_phydev 2 (0, ''RGMII-ID'') False (0x0e00, 0))\<lparr>interface := 4\<rparr>)) = 9 \<and>
   interface (snd (adin_config_rgmii_mode sample_host
     ((sample_phydev 2 (0, ''RGMII-ID'') False (0x0e00, 0))\<lparr>interface := 4\<rparr>))) = 9"
proof -
  let ?d = "sample_phydev 2 (0, ''RGMII-ID'') False (0x0e00, 0)"
  have p: "of_property_read_string (of_node ?d) prop_phy_mode_override = (0, ''RGMII-ID'')"
    by (simp add: sample_eval)
  have k: "(9::int) < PHY_INTERFACE_MODE_MAX sample_host"
    by (simp add: sample_host_def)
  have e: "strcasecmp ''RGMII-ID'' (phy_modes sample_host 9) = 0"
    by (simp add: sample_eval)
  have n: "\<forall>j. 0 \<le> j \<and> j < 9 \<longrightarrow> strcasecmp ''RGMII-ID'' (phy_modes sample_host j) \<noteq> 0"
  proof (intro allI impI)
    fix j :: int
    assume "0 \<le> j \<and> j < 9"
    then have "j \<in> {0, 1, 2, 3, 4, 5, 6, 7, 8}" by auto
    then show "strcasecmp ''RGMII-ID'' (phy_modes sample_host j) \<noteq> 0"
      by (auto simp add: sample_eval)
  qed
  have sc: "phy_mode_scan sample_host ''RGMII-ID'' 0 = Some 9"
    by (simp add: sample_eval)
  show ?thesis
    using valid_override_sets_mode [OF p order_refl _ k e n, of 4] p e sc by simp
qed

text \<open>
  C4. When the override property is read successfully and its string compares equal to
  no name of the mode table, the lookup prints its diagnostic and returns
  \<open>- ENODEV\<close>; \<^verbatim>\<open>adin_config_rgmii_mode\<close> leaves the interface field as it was and
  goes on to read and write the RGMII-config register, and what it returns is the
  outcome \<open>rc\<close> of that write, not the lookup error. The handler's status is then
  decided by \<open>rc\<close> and by the clock-config step alone.
\<close>

theorem unrecognized_override_keeps_mode:
  assumes "of_property_read_string (of_node d) prop_phy_mode_override = (err, s)"
    and "0 \<le> err"
    and "\<forall>j. 0 \<le> j \<and> j < PHY_INTERFACE_MODE_MAX h \<longrightarrow> strcasecmp s (phy_modes h j) \<noteq> 0"
    and "adin_config_rgmii_mode h d = (rc, d')"
  shows "adin_get_phy_mode_override h d = (- ENODEV, printk d (override_not_valid_msg s)) \<and>
     interface d' = interface d \<and>
     klog d' = klog d @ [override_not_valid_msg s] \<and>
     (\<exists>r1 r2 r3 v. mdio_trace d' = mdio_trace d @
       [MDIO_Write ADIN1300_MII_EXT_REG_PTR (ucast ADIN1300_GE_RGMII_CFG_REG) r1,
        MDIO_Read ADIN1300_MII_EXT_REG_DATA r2,
        MDIO_Write ADIN1300_MII_EXT_REG_PTR (ucast ADIN1300_GE_RGMII_CFG_REG) r3,
        MDIO_Write ADIN1300_MII_EXT_REG_DATA v rc]) \<and>
     fst (adin1300_phy_fixup h d) =
       (if rc < 0 then rc
        else if fst (adin_set_clock_config h d') < 0 then fst (adin_set_clock_config h d')
        else 0)"
proof -
  have ov: "adin_get_phy_mode_override h d = (- ENODEV, printk d (override_not_valid_msg s))"
    using assms(1-3) by (rule override_invalid)
  note res = adin_config_rgmii_mode_result [OF ov assms(4)]
  have md: "interface d' = interface d"
    using res(1) by (simp add: ENODEV_def)
  have lg: "klog d' = klog d @ [override_not_valid_msg s]"
    using res(2) by (simp add: printk_def)
  have tr: "\<exists>r1 r2 r3 v. mdio_trace d' = mdio_trace d @
       [MDIO_Write ADIN1300_MII_EXT_REG_PTR (ucast ADIN1300_GE_RGMII_CFG_REG) r1,
        MDIO_Read ADIN1300_MII_EXT_REG_DATA r2,
        MDIO_Write ADIN1300_MII_EXT_REG_PTR (ucast ADIN1300_GE_RGMII_CFG_REG) r3,
        MDIO_Write ADIN1300_MII_EXT_REG_DATA v rc]"
    using res(4) by blast
  have fx: "fst (adin1300_phy_fixup h d) =
       (if rc < 0 then rc
        else if fst (adin_set_clock_config h d') < 0 then fst (adin_set_clock_config h d')
        else 0)"
    by (simp add: adin1300_phy_fixup_def assms(4) split: prod.splits)
  from ov md lg tr fx show ?thesis by blast
qed

theorem unrecognized_override_keeps_mode_witness:
  "of_property_read_string (of_node (sample_phydev 9 (0, ''bogus'') False (0x0e00, 0)))
     prop_phy_mode_override = (0, ''bogus'') \<and>
   phy_mode_scan sample_host ''bogus'' 0 = None \<and>
   interface (snd (adin_config_rgmii_mode sample_host
     (sample_phydev 9 (0, ''bogus'') False (0x0e00, 0)))) = 9 \<and>
   klog (snd (adin_config_rgmii_mode sample_host
     (sample_phydev 9 (0, ''bogus'') False (0x0e00, 0)))) = [override_not_valid_msg ''bogus''] \<and>
   mdio_trace (snd (adin_config_rgmii_mode sample_host
     (sample_phydev 9 (0, ''bogus'') False (0x0e00, 0)))) =
     [MDIO_Write 0x10 0xff23 0, MDIO_Read 0x11 0x0e00,
      MDIO_Write 0x10 0xff23 0, MDIO_Write 0x11 0x0e07 0] \<and>
   fst (adin1300_phy_fixup sample_host (sample_phydev 9 (0, ''bogus'') False (0x0e00, 0))) = 0"
proof -
  let ?d = "sample_phydev 9 (0, ''bogus'') False (0x0e00, 0)"
  have p: "of_property_read_string (of_node ?d) prop_phy_mode_override = (0, ''bogus'')"
    by (simp add: sample_eval)
  have n: "\<forall>j. 0 \<le> j \<and> j < PHY_INTERFACE_MODE_MAX sample_host \<longrightarrow>
      strcasecmp ''bogus'' (phy_modes sample_host j) \<noteq> 0"
  proof (intro allI impI)
    fix j :: int
    assume "0 \<le> j \<and> j < PHY_INTERFACE_MODE_MAX sample_host"
    then have "j \<in> {0, 1, 2, 3, 4, 5, 6, 7, 8, 9, 10, 11, 12, 13, 14, 15, 16, 17, 18, 19,
        20, 21, 22, 23}"
      by (simp add: sample_host_def) arith
    then show "strcasecmp ''bogus'' (phy_modes sample_host j) \<noteq> 0"
      by (auto simp add: sample_eval)
  qed
  have c: "interface (snd (adin_config_rgmii_mode sample_host ?d)) = 9"
    "klog (snd (adin_config_rgmii_mode sample_host ?d)) = [override_not_valid_msg ''bogus'']"
    "mdio_trace (snd (adin_config_rgmii_mode sample_host ?d)) =
     [MDIO_Write 0x10 0xff23 0, MDIO_Read 0x11 0x0e00,
      MDIO_Write 0x10 0xff23 0, MDIO_Write 0x11 0x0e07 0]"
    "fst (adin1300_phy_fixup sample_host ?d) = 0"
    by (simp_all add: sample_eval override_not_valid_msg_def)
  have sc: "phy_mode_scan sample_host ''bogus'' 0 = None"
    by (simp add: sample_eval)
  show ?thesis
    using unrecognized_override_keeps_mode [OF p order_refl n prod.collapse [symmetric]] p sc c
    by simp
qed

text \<open>
  C8. The mode that decides the RGMII-config register is the one left in the interface
  field after the override step: the field holds the override when the lookup returned
  a mode (\<open>0 \<le> m\<close>) and the prior mode otherwise, the value written is the one the
  specification prescribes for that mode and the value read, and with a valid override
  the whole run (result, bus accesses, final device) is the same from every prior mode.
\<close>

theorem rgmii_cfg_uses_resolved_mode:
  assumes "phy_interface_enum_ok h"
    and "adin_get_phy_mode_override h d = (m, d0)"
    and "adin_config_rgmii_mode h d = (rc, d')"
  shows "interface d' = (if 0 \<le> m then m else interface d) \<and>
     (\<exists>r1 r2 r3. mdio_trace d' = mdio_trace d @
       [MDIO_Write ADIN1300_MII_EXT_REG_PTR (ucast ADIN1300_GE_RGMII_CFG_REG) r1,
        MDIO_Read ADIN1300_MII_EXT_REG_DATA r2,
        MDIO_Write ADIN1300_MII_EXT_REG_PTR (ucast ADIN1300_GE_RGMII_CFG_REG) r3,
        MDIO_Write ADIN1300_MII_EXT_REG_DATA
          (spec_rgmii_cfg h (interface d') (word_of_int r2)) rc]) \<and>
     (0 \<le> m \<longrightarrow>
        (\<forall>prior. adin_config_rgmii_mode h (d\<lparr>interface := prior\<rparr>) =
                  adin_config_rgmii_mode h d))"
proof -
  note res = adin_config_rgmii_mode_result [OF assms(2,3)]
  have tr: "\<exists>r1 r2 r3. mdio_trace d' = mdio_trace d @
       [MDIO_Write ADIN1300_MII_EXT_REG_PTR (ucast ADIN1300_GE_RGMII_CFG_REG) r1,
        MDIO_Read ADIN1300_MII_EXT_REG_DATA r2,
        MDIO_Write ADIN1300_MII_EXT_REG_PTR (ucast ADIN1300_GE_RGMII_CFG_REG) r3,
        MDIO_Write ADIN1300_MII_EXT_REG_DATA
          (spec_rgmii_cfg h (interface d') (word_of_int r2)) rc]"
    using res(4) unfolding res(1) rgmii_cfg_written_spec [OF assms(1)] .
  have ind: "0 \<le> m \<longrightarrow>
        (\<forall>prior. adin_config_rgmii_mode h (d\<lparr>interface := prior\<rparr>) =
                  adin_config_rgmii_mode h d)"
    using config_any_prior_mode [OF assms(2)] by blast
  from res(1) tr ind show ?thesis by blast
qed

theorem rgmii_cfg_uses_resolved_mode_witness:
  "phy_interface_enum_ok sample_host \<and>
   adin_get_phy_mode_override sample_host
      (sample_phydev 2 (0, ''rgmii-rxid'') False (0x0e02, 0)) =
     (10, sample_phydev 2 (0, ''rgmii-rxid'') False (0x0e02, 0)) \<and>
   interface (snd (adin_config_rgmii_mode sample_host
      (sample_phydev 2 (0, ''rgmii-rxid'') False (0x0e02, 0)))) = 10 \<and>
   mdio_trace (snd (adin_config_rgmii_mode sample_host
      (sample_phydev 2 (0, ''rgmii-rxid'') False (0x0e02, 0)))) =
     [MDIO_Write 0x10 0xff23 0, MDIO_Read 0x11 0x0e02,
      MDIO_Write 0x10 0xff23 0, MDIO_Write 0x11 0x0e05 0] \<and>
   spec_rgmii_cfg sample_host 10 0x0e02 = 0x0e05 \<and>
   adin_config_rgmii_mode sample_host
      ((sample_phydev 2 (0, ''rgmii-rxid'') False (0x0e02, 0))\<lparr>interface := 8\<rparr>) =
     adin_config_rgmii_mode sample_host
      (sample_phydev 2 (0, ''rgmii-rxid'') False (0x0e02, 0))"
proof -
  let ?d = "sample_phydev 2 (0, ''rgmii-rxid'') False (0x0e02, 0)"
  have ov: "adin_get_phy_mode_override sample_host ?d = (10, ?d)"
    by (simp add: sample_eval)
  have c: "interface (snd (adin_config_rgmii_mode sample_host ?d)) = 10"
    "mdio_trace (snd (adin_config_rgmii_mode sample_host ?d)) =
     [MDIO_Write 0x10 0xff23 0, MDIO_Read 0x11 0x0e02,
      MDIO_Write 0x10 0xff23 0, MDIO_Write 0x11 0x0e05 0]"
    by (simp_all add: sample_eval)
  have sp: "spec_rgmii_cfg sample_host 10 0x0e02 = 0x0e05"
    by (simp add: spec_rgmii_cfg_def rgmii_modes_def sample_host_def set_bit_eq_or
        unset_bit_eq_and_not)
  show ?thesis
    using rgmii_cfg_uses_resolved_mode [OF sample_host_enum_ok ov prod.collapse [symmetric]]
      sample_host_enum_ok ov c sp
    by simp
qed

text \<open>
  C10. The lookup runs over the whole mode table: when the override string compares
  equal to the name of a mode \<open>k\<close> of the table that is none of the four RGMII variants
  (\<open>k\<close> being the first index whose name does), the interface field is set to \<open>k\<close>
  and the value written to the RGMII-config register is the value read with the enable
  bit cleared.
\<close>

theorem non_rgmii_override_disables_rgmii:
  assumes "phy_interface_enum_ok h"
    and "of_property_read_string (of_node d) prop_phy_mode_override = (err, s)"
    and "0 \<le> err"
    and "0 \<le> k" and "k < PHY_INTERFACE_MODE_MAX h"
    and "k \<notin> rgmii_modes h"
    and "strcasecmp s (phy_modes h k) = 0"
    and "\<forall>j. 0 \<le> j \<and> j < k \<longrightarrow> strcasecmp s (phy_modes h j) \<noteq> 0"
    and "adin_config_rgmii_mode h d = (rc, d')"
  shows "interface d' = k \<and>
     (\<exists>r1 r2 r3 v. mdio_trace d' = mdio_trace d @
       [MDIO_Write ADIN1300_MII_EXT_REG_PTR (ucast ADIN1300_GE_RGMII_CFG_REG) r1,
        MDIO_Read ADIN1300_MII_EXT_REG_DATA r2,
        MDIO_Write ADIN1300_MII_EXT_REG_PTR (ucast ADIN1300_GE_RGMII_CFG_REG) r3,
        MDIO_Write ADIN1300_MII_EXT_REG_DATA v rc] \<and>
       v = word_of_int r2 AND NOT 1 \<and> \<not> bit v 0)"
proof -
  have ov: "adin_get_phy_mode_override h d = (k, d)"
    using assms(2,3,4,5,7,8) by (rule override_valid)
  note res = adin_config_rgmii_mode_result [OF ov assms(9)]
  have md: "interface d' = k"
    using res(1) assms(4) by simp
  have w: "rgmii_cfg_written h k val = val AND NOT 1" for val
    using assms(1,6) by (rule rgmii_cfg_written_non_rgmii)
  from res(4) obtain r1 r2 r3 where
    tr: "mdio_trace d' = mdio_trace d @
       [MDIO_Write ADIN1300_MII_EXT_REG_PTR (ucast ADIN1300_GE_RGMII_CFG_REG) r1,
        MDIO_Read ADIN1300_MII_EXT_REG_DATA r2,
        MDIO_Write ADIN1300_MII_EXT_REG_PTR (ucast ADIN1300_GE_RGMII_CFG_REG) r3,
        MDIO_Write ADIN1300_MII_EXT_REG_DATA (word_of_int r2 AND NOT 1) rc]"
    using assms(4) by (auto simp add: w)
  have "\<not> bit (word_of_int r2 AND NOT 1 :: 16 word) 0"
    by (simp add: bit_simps)
  with md tr show ?thesis by blast
qed

theorem non_rgmii_override_disables_rgmii_witness:
  "phy_interface_enum_ok sample_host \<and>
   of_property_read_string (of_node (sample_phydev 9 (0, ''SGMII'') False (0x0e07, 0)))
     prop_phy_mode_override = (0, ''SGMII'') \<and>
   (4::int) \<notin> rgmii_modes sample_host \<and>
   strcasecmp ''SGMII'' (phy_modes sample_host 4) = 0 \<and>
   phy_mode_scan sample_host ''SGMII'' 0 = Some 4 \<and>
   interface (snd (adin_config_rgmii_mode sample_host
      (sample_phydev 9 (0, ''SGMII'') False (0x0e07, 0)))) = 4 \<and>
   mdio_trace (snd (adin_config_rgmii_mode sample_host
      (sample_phydev 9 (0, ''SGMII'') False (0x0e07, 0)))) =
     [MDIO_Write 0x10 0xff23 0, MDIO_Read 0x11 0x0e07,
      MDIO_Write 0x10 0xff23 0, MDIO_Write 0x11 0x0e06 0]"
proof -
  let ?d = "sample_phydev 9 (0, ''SGMII'') False (0x0e07, 0)"
  have p: "of_property_read_string (of_node ?d) prop_phy_mode_override = (0, ''SGMII'')"
    by (simp add: sample_eval)
  have k: "(4::int) < PHY_INTERFACE_MODE_MAX sample_host"
    by (simp add: sample_host_def)
  have nr: "(4::int) \<notin> rgmii_modes sample_host"
    by (simp add: rgmii_modes_def sample_host_def)
  have e: "strcasecmp ''SGMII'' (phy_modes sample_host 4) = 0"
    by (simp add: sample_eval)
  have n: "\<forall>j. 0 \<le> j \<and> j < 4 \<longrightarrow> strcasecmp ''SGMII'' (phy_modes sample_host j) \<noteq> 0"
  proof (intro allI impI)
    fix j :: int
    assume "0 \<le> j \<and> j < 4"
    then have "j \<in> {0, 1, 2, 3}" by auto
    then show "strcasecmp ''SGMII'' (phy_modes sample_host j) \<noteq> 0"
      by (auto simp add: sample_eval)
  qed
  have sc: "phy_mode_scan sample_host ''SGMII'' 0 = Some 4"
    by (simp add: sample_eval)
  have c: "interface (snd (adin_config_rgmii_mode sample_host ?d)) = 4"
    "mdio_trace (snd (adin_config_rgmii_mode sample_host ?d)) =
     [MDIO_Write 0x10 0xff23 0, MDIO_Read 0x11 0x0e07,
      MDIO_Write 0x10 0xff23 0, MDIO_Write 0x11 0x0e06 0]"
    by (simp_all add: sample_eval)
  show ?thesis
    using non_rgmii_override_disables_rgmii
      [OF sample_host_enum_ok p order_refl _ k nr e n prod.collapse [symmetric]]
      sample_host_enum_ok p nr e sc c
    by simp
qed

section \<open>The clock-config register\<close>

text \<open>
  C6. When \<^verbatim>\<open>of_property_read_bool\<close> finds the property \<^verbatim>\<open>adi,clk_rcvr_125_en\<close>
  unset, \<^verbatim>\<open>adin_set_clock_config\<close> returns 0 and leaves the device as it was: no bus
  access is added to the trace and the bus state is untouched.
\<close>

theorem clock_flag_unset_no_access:
  assumes "\<not> of_property_read_bool (of_node d) ''adi,clk_rcvr_125_en''"
  shows "adin_set_clock_config h d = (0, d) \<and>
         mdio_trace (snd (adin_set_clock_config h d)) = mdio_trace d \<and>
         bus (snd (adin_set_clock_config h d)) = bus d"
  using assms by (simp add: adin_set_clock_config_def)

theorem clock_flag_unset_no_access_witness:
  "\<not> of_property_read_bool (of_node (sample_phydev 9 (- 22, []) False (0x0e07, - 5)))
       ''adi,clk_rcvr_125_en'' \<and>
   adin_set_clock_config sample_host (sample_phydev 9 (- 22, []) False (0x0e07, - 5)) =
     (0, sample_phydev 9 (- 22, []) False (0x0e07, - 5)) \<and>
   mdio_trace (snd (adin_set_clock_config sample_host
     (sample_phydev 9 (- 22, []) False (0x0e07, - 5)))) = []"
proof -
  let ?d = "sample_phydev 9 (- 22, []) False (0x0e07, - 5)"
  have f: "\<not> of_property_read_bool (of_node ?d) ''adi,clk_rcvr_125_en''"
    by (simp add: of_property_read_bool_def sample_phydev_def)
  have t: "mdio_trace ?d = []"
    by (simp add: sample_phydev_def)
  show ?thesis
    using clock_flag_unset_no_access [OF f, of sample_host] f t by simp
qed

text \<open>
  C7 claims that a negative outcome of the initial clock-register read is returned like
  one of the final write. It is not: on the sample host, a read that fails with \<open>- 5\<close>
  followed by writes that succeed gives 0 (the error, reduced to \<open>0xfffb\<close>, is written
  back), while a read that succeeds followed by a write that fails with \<open>- 5\<close> gives
  \<open>- 5\<close>.
\<close>

theorem clock_read_error_not_returned:
  "fst (adin_set_clock_config sample_host (sample_phydev 9 (- 22, []) True (- 5, 0))) = 0 \<and>
   mdio_trace (snd (adin_set_clock_config sample_host
     (sample_phydev 9 (- 22, []) True (- 5, 0)))) =
     [MDIO_Write 0x10 0xff1f 0, MDIO_Read 0x11 (- 5),
      MDIO_Write 0x10 0xff1f 0, MDIO_Write 0x11 0xfffb 0] \<and>
   fst (adin_set_clock_config sample_host (sample_phydev 9 (- 22, []) True (0x0e00, - 5))) = - 5 \<and>
   fst (adin_set_clock_config sample_host (sample_phydev 9 (- 22, []) True (- 5, 0))) \<noteq>
   fst (adin_set_clock_config sample_host (sample_phydev 9 (- 22, []) True (0x0e00, - 5)))"
  by (simp add: sample_eval)


text \<open>
  C7, amended. With the flag set, \<^verbatim>\<open>adin_set_clock_config\<close> makes four bus accesses and
  returns the outcome \<open>rc\<close> of the last one, the write of the data register; a negative
  outcome of that write reaches the caller unchanged. The value written is the read
  result \<open>r2\<close>, whatever it is, reduced to 16 bits and with bit 5 set.
\<close>

theorem clock_config_returns_write_outcome:
  assumes "of_property_read_bool (of_node d) ''adi,clk_rcvr_125_en''"
    and "adin_set_clock_config h d = (rc, d')"
  shows "\<exists>r1 r2 r3. mdio_trace d' = mdio_trace d @
       [MDIO_Write ADIN1300_MII_EXT_REG_PTR (ucast ADIN1300_GE_CLK_CFG) r1,
        MDIO_Read ADIN1300_MII_EXT_REG_DATA r2,
        MDIO_Write ADIN1300_MII_EXT_REG_PTR (ucast ADIN1300_GE_CLK_CFG) r3,
        MDIO_Write ADIN1300_MII_EXT_REG_DATA (word_of_int r2 OR 0x20) rc]"
proof -
  from adin_set_clock_config_run [OF assms(1), of h] obtain r1 r2 r3 rc0 b where
    eq: "adin_set_clock_config h d =
       (rc0, d\<lparr>bus := b,
              mdio_trace := mdio_trace d @
                [MDIO_Write ADIN1300_MII_EXT_REG_PTR (ucast ADIN1300_GE_CLK_CFG) r1,
                 MDIO_Read ADIN1300_MII_EXT_REG_DATA r2,
                 MDIO_Write ADIN1300_MII_EXT_REG_PTR (ucast ADIN1300_GE_CLK_CFG) r3,
                 MDIO_Write ADIN1300_MII_EXT_REG_DATA (word_of_int r2 OR 0x20) rc0],
              klog := klog d @ [clk_enable_msg]\<rparr>)"
    by blast
  from eq assms(2) have "rc0 = rc" and "d' = d\<lparr>bus := b,
              mdio_trace := mdio_trace d @
                [MDIO_Write ADIN1300_MII_EXT_REG_PTR (ucast ADIN1300_GE_CLK_CFG) r1,
                 MDIO_Read ADIN1300_MII_EXT_REG_DATA r2,
                 MDIO_Write ADIN1300_MII_EXT_REG_PTR (ucast ADIN1300_GE_CLK_CFG) r3,
                 MDIO_Write ADIN1300_MII_EXT_REG_DATA (word_of_int r2 OR 0x20) rc0],
              klog := klog d @ [clk_enable_msg]\<rparr>"
    by simp_all
  then have "mdio_trace d' = mdio_trace d @
       [MDIO_Write ADIN1300_MII_EXT_REG_PTR (ucast ADIN1300_GE_CLK_CFG) r1,
        MDIO_Read ADIN1300_MII_EXT_REG_DATA r2,
        MDIO_Write ADIN1300_MII_EXT_REG_PTR (ucast ADIN1300_GE_CLK_CFG) r3,
        MDIO_Write ADIN1300_MII_EXT_REG_DATA (word_of_int r2 OR 0x20) rc]"
    by simp
  then show ?thesis by blast
qed

theorem clock_config_returns_write_outcome_witness:
  "of_property_read_bool (of_node (sample_phydev 9 (- 22, []) True (0x0e00, - 5)))
     ''adi,clk_rcvr_125_en'' \<and>
   fst (adin_set_clock_config sample_host (sample_phydev 9 (- 22, []) True (0x0e00, - 5))) = - 5 \<and>
   mdio_trace (snd (adin_set_clock_config sample_host
     (sample_phydev 9 (- 22, []) True (0x0e00, - 5)))) =
     [MDIO_Write 0x10 0xff1f (- 5), MDIO_Read 0x11 0x0e00,
      MDIO_Write 0x10 0xff1f (- 5), MDIO_Write 0x11 0x0e20 (- 5)]"
proof -
  let ?d = "sample_phydev 9 (- 22, []) True (0x0e00, - 5)"
  have f: "of_property_read_bool (of_node ?d) ''adi,clk_rcvr_125_en''"
    by (simp add: of_property_read_bool_def sample_phydev_def)
  have c: "fst (adin_set_clock_config sample_host ?d) = - 5"
    "mdio_trace (snd (adin_set_clock_config sample_host ?d)) =
     [MDIO_Write 0x10 0xff1f (- 5), MDIO_Read 0x11 0x0e00,
      MDIO_Write 0x10 0xff1f (- 5), MDIO_Write 0x11 0x0e20 (- 5)]"
    by (simp_all add: sample_eval)
  show ?thesis
    using clock_config_returns_write_outcome [OF f prod.collapse [symmetric], of sample_host] f c
    by simp
qed

section \<open>Read errors\<close>

text \<open>
  C9. \<^verbatim>\<open>adin_ext_read\<close> returns a \<^verbatim>\<open>u16\<close>: the \<^verbatim>\<open>int\<close> that \<^verbatim>\<open>phy_read\<close> returned
  (\<open>r2\<close>, a negative errno when the bus failed) reduced modulo \<open>2 ^ 16\<close>, which is never
  negative once widened to \<^verbatim>\<open>int\<close>. So the test \<^verbatim>\<open>reg < 0\<close> of
  \<^verbatim>\<open>adin_config_rgmii_mode\<close> never fires: every run goes on to the write of the data
  register, the value written is computed from \<open>r2\<close> reduced to 16 bits whatever the
  sign of \<open>r2\<close>, and the result is the outcome of that write.
\<close>

theorem ext_read_result_never_negative:
  "0 \<le> uint (fst (adin_ext_read h d regnum)) \<and>
   (\<exists>r1 r2. fst (adin_ext_read h d regnum) = word_of_int r2 \<and>
      mdio_trace (snd (adin_ext_read h d regnum)) = mdio_trace d @
        [MDIO_Write ADIN1300_MII_EXT_REG_PTR (ucast regnum) r1,
         MDIO_Read ADIN1300_MII_EXT_REG_DATA r2]) \<and>
   (\<exists>r1 r2 r3. mdio_trace (snd (adin_config_rgmii_mode h d)) = mdio_trace d @
       [MDIO_Write ADIN1300_MII_EXT_REG_PTR (ucast ADIN1300_GE_RGMII_CFG_REG) r1,
        MDIO_Read ADIN1300_MII_EXT_REG_DATA r2,
        MDIO_Write ADIN1300_MII_EXT_REG_PTR (ucast ADIN1300_GE_RGMII_CFG_REG) r3,
        MDIO_Write ADIN1300_MII_EXT_REG_DATA
          (rgmii_cfg_written h (interface (snd (adin_config_rgmii_mode h d))) (word_of_int r2))
          (fst (adin_config_rgmii_mode h d))])"
proof -
  have nonneg: "0 \<le> uint (fst (adin_ext_read h d regnum))"
    by simp
  obtain r1 r2 b where rd: "adin_ext_read h d regnum =
     (word_of_int r2,
      d\<lparr>bus := b, mdio_trace := mdio_trace d @
         [MDIO_Write ADIN1300_MII_EXT_REG_PTR (ucast regnum) r1,
          MDIO_Read ADIN1300_MII_EXT_REG_DATA r2]\<rparr>)"
    using adin_ext_read_shape [of h d regnum] by blast
  have "fst (adin_ext_read h d regnum) = word_of_int r2 \<and>
      mdio_trace (snd (adin_ext_read h d regnum)) = mdio_trace d @
        [MDIO_Write ADIN1300_MII_EXT_REG_PTR (ucast regnum) r1,
         MDIO_Read ADIN1300_MII_EXT_REG_DATA r2]"
    by (simp add: rd)
  then have shape: "\<exists>r1 r2. fst (adin_ext_read h d regnum) = word_of_int r2 \<and>
      mdio_trace (snd (adin_ext_read h d regnum)) = mdio_trace d @
        [MDIO_Write ADIN1300_MII_EXT_REG_PTR (ucast regnum) r1,
         MDIO_Read ADIN1300_MII_EXT_REG_DATA r2]"
    by blast
  obtain m d0 where ov: "adin_get_phy_mode_override h d = (m, d0)"
    by (cases "adin_get_phy_mode_override h d")
  note res = adin_config_rgmii_mode_result [OF ov prod.collapse [symmetric]]
  have run: "\<exists>r1 r2 r3. mdio_trace (snd (adin_config_rgmii_mode h d)) = mdio_trace d @
       [MDIO_Write ADIN1300_MII_EXT_REG_PTR (ucast ADIN1300_GE_RGMII_CFG_REG) r1,
        MDIO_Read ADIN1300_MII_EXT_REG_DATA r2,
        MDIO_Write ADIN1300_MII_EXT_REG_PTR (ucast ADIN1300_GE_RGMII_CFG_REG) r3,
        MDIO_Write ADIN1300_MII_EXT_REG_DATA
          (rgmii_cfg_written h (interface (snd (adin_config_rgmii_mode h d))) (word_of_int r2))
          (fst (adin_config_rgmii_mode h d))]"
    using res(4) unfolding res(1) .
  from nonneg shape run show ?thesis by blast
qed

theorem ext_read_result_never_negative_witness:
  "fst (adin_ext_read sample_host (sample_phydev 9 (- 22, []) False (- 5, 0))
     ADIN1300_GE_RGMII_CFG_REG) = 0xfffb \<and>
   uint (fst (adin_ext_read sample_host (sample_phydev 9 (- 22, []) False (- 5, 0))
     ADIN1300_GE_RGMII_CFG_REG)) = 65531 \<and>
   mdio_trace (snd (adin_ext_read sample_host (sample_phydev 9 (- 22, []) False (- 5, 0))
     ADIN1300_GE_RGMII_CFG_REG)) =
     [MDIO_Write 0x10 0xff23 0, MDIO_Read 0x11 (- 5)] \<and>
   adin_config_rgmii_mode sample_host (sample_phydev 9 (- 22, []) False (- 5, 0)) =
     (0, (sample_phydev 9 (- 22, []) False (- 5, 0))
           \<lparr>mdio_trace :=
              [MDIO_Write 0x10 0xff23 0, MDIO_Read 0x11 (- 5),
               MDIO_Write 0x10 0xff23 0, MDIO_Write 0x11 0xffff 0]\<rparr>)"
  using ext_read_result_never_negative
    [of sample_host "sample_phydev 9 (- 22, []) False (- 5, 0)" ADIN1300_GE_RGMII_CFG_REG]
  by (simp add: sample_eval)

text \<open>
  C2 asks that a failed read of the RGMII-config register make \<^verbatim>\<open>adin1300_phy_fixup\<close>
  return the error at once, without the clock-config step. The code tests for it
  (\<^verbatim>\<open>if (reg < 0) return reg;\<close>) on a value that has gone through \<^verbatim>\<open>u16\<close>, so it
  does not: on the sample host, with every read failing with \<open>- 5\<close>, the clock flag set
  and the mode RGMII-ID, the handler returns 0 after all eight bus accesses, having
  written \<open>0xffff\<close> to the RGMII-config register and \<open>0xfffb\<close> to the clock-config
  register.
\<close>

theorem fixup_rgmii_read_error_run:
  "adin1300_phy_fixup sample_host (sample_phydev 9 (- 22, []) True (- 5, 0)) =
     (0, (sample_phydev 9 (- 22, []) True (- 5, 0))
           \<lparr>mdio_trace :=
              [MDIO_Write 0x10 0xff23 0, MDIO_Read 0x11 (- 5),
               MDIO_Write 0x10 0xff23 0, MDIO_Write 0x11 0xffff 0,
               MDIO_Write 0x10 0xff1f 0, MDIO_Read 0x11 (- 5),
               MDIO_Write 0x10 0xff1f 0, MDIO_Write 0x11 0xfffb 0],
            klog := [clk_enable_msg, using_mode_msg ''rgmii-id'']\<rparr>)"
  by (simp add: sample_eval clk_enable_msg_def using_mode_msg_def)

end
